theory Spec2Isabelle
  imports Complex_Main "HOL-Library.Sublist"
begin

section \<open>Data model\<close>

text \<open>
  One line of \<^verbatim>\<open>StudentsPerformance_Updated.csv\<close>, with one field per column the
  dashboard reads. The five categorical columns hold strings, the three score columns and
  \<^verbatim>\<open>Attendance\<close> hold integers, \<^verbatim>\<open>StudyHours\<close> and \<^verbatim>\<open>avg_Score\<close> hold floats.
  The dashboard only ever compares the two float columns with a bound; a finite float is
  the number it denotes and the comparison of two finite floats is exact, so both columns
  are numbers here. Missing cells (NaN) are outside this type.
\<close>

record row =
  gender :: string
  race_ethnicity :: string
  parental_level_of_education :: string
  lunch :: string
  test_preparation_course :: string
  math_score :: int
  reading_score :: int
  writing_score :: int
  Attendance :: int
  StudyHours :: real
  avg_Score :: real

text \<open>A loaded table, in file order (\<^verbatim>\<open>df\<close>, \<^verbatim>\<open>filtered_df\<close>).\<close>

type_synonym dataframe = "row list"

text \<open>
  The values of the sixteen filter widgets (lines 65 to 123), under the names of the
  script's variables. The integer widgets return \<^verbatim>\<open>int\<close>, the ones built with float
  bounds return \<^verbatim>\<open>float\<close>.
\<close>

record filter_spec =
  gender_filter :: string
  race_filter :: string
  education_filter :: string
  lunch_filter :: string
  prep_filter :: string
  attendance_min :: int
  attendance_max :: int
  study_hours_min :: real
  study_hours_max :: real
  math_min :: int
  math_max :: int
  reading_min :: int
  reading_max :: int
  writing_min :: int
  writing_max :: int
  avg_score_min :: real

section \<open>The pandas operations the filter block uses\<close>

text \<open>
  \<^verbatim>\<open>df['name']\<close> is the column as a series, \<^verbatim>\<open>series == v\<close>, \<^verbatim>\<open>series >= v\<close> and
  \<^verbatim>\<open>series <= v\<close> compare element by element and give a boolean mask, \<^verbatim>\<open>m1 & m2\<close> is
  the element-wise conjunction of two masks, and \<^verbatim>\<open>df[mask]\<close> is a new frame with the
  rows whose mask entry is true, in the order of \<^verbatim>\<open>df\<close>.
\<close>

definition getitem :: "'r list \<Rightarrow> ('r \<Rightarrow> 'a) \<Rightarrow> 'a list" where
  "getitem df c = map c df"

definition series_eq :: "'a list \<Rightarrow> 'a \<Rightarrow> bool list" where
  "series_eq xs v = map (\<lambda>x. x = v) xs"

definition series_ge :: "('a::linorder) list \<Rightarrow> 'a \<Rightarrow> bool list" where
  "series_ge xs v = map (\<lambda>x. x \<ge> v) xs"

definition series_le :: "('a::linorder) list \<Rightarrow> 'a \<Rightarrow> bool list" where
  "series_le xs v = map (\<lambda>x. x \<le> v) xs"

definition mask_and :: "bool list \<Rightarrow> bool list \<Rightarrow> bool list" where
  "mask_and m1 m2 = map2 (\<and>) m1 m2"

definition bool_index :: "'r list \<Rightarrow> bool list \<Rightarrow> 'r list" where
  "bool_index df m = map fst (filter snd (zip df m))"

section \<open>The filter block (lines 132 to 161)\<close>

text \<open>
  The block rebinds \<^verbatim>\<open>filtered_df\<close> six times: once for each categorical widget whose
  value is not \<^verbatim>\<open>'All'\<close>, then once with the conjunction of the eleven numeric
  comparisons. Python's \<^verbatim>\<open>&\<close> associates to the left. Every
  \<^verbatim>\<open>let\<close> below is one assignment to \<^verbatim>\<open>filtered_df\<close>, in the order of the script;
  the first one is \<^verbatim>\<open>df.copy()\<close>, a frame with the rows of \<^verbatim>\<open>df\<close>.
\<close>

definition numeric_mask :: "dataframe \<Rightarrow> filter_spec \<Rightarrow> bool list" where
  "numeric_mask filtered_df s =
     mask_and (mask_and (mask_and (mask_and (mask_and (mask_and (mask_and (mask_and
       (mask_and (mask_and
         (series_ge (getitem filtered_df math_score) (math_min s))
         (series_le (getitem filtered_df math_score) (math_max s)))
         (series_ge (getitem filtered_df reading_score) (reading_min s)))
         (series_le (getitem filtered_df reading_score) (reading_max s)))
         (series_ge (getitem filtered_df writing_score) (writing_min s)))
         (series_le (getitem filtered_df writing_score) (writing_max s)))
         (series_ge (getitem filtered_df Attendance) (attendance_min s)))
         (series_le (getitem filtered_df Attendance) (attendance_max s)))
         (series_ge (getitem filtered_df StudyHours) (study_hours_min s)))
         (series_le (getitem filtered_df StudyHours) (study_hours_max s)))
         (series_ge (getitem filtered_df avg_Score) (avg_score_min s))"

definition apply_filters :: "dataframe \<Rightarrow> filter_spec \<Rightarrow> dataframe" where
  "apply_filters df s =
    (let filtered_df = df;
         filtered_df =
           (if gender_filter s \<noteq> ''All''
            then bool_index filtered_df
                   (series_eq (getitem filtered_df gender) (gender_filter s))
            else filtered_df);
         filtered_df =
           (if race_filter s \<noteq> ''All''
            then bool_index filtered_df
                   (series_eq (getitem filtered_df race_ethnicity) (race_filter s))
            else filtered_df);
         filtered_df =
           (if education_filter s \<noteq> ''All''
            then bool_index filtered_df
                   (series_eq (getitem filtered_df parental_level_of_education)
                      (education_filter s))
            else filtered_df);
         filtered_df =
           (if lunch_filter s \<noteq> ''All''
            then bool_index filtered_df
                   (series_eq (getitem filtered_df lunch) (lunch_filter s))
            else filtered_df);
         filtered_df =
           (if prep_filter s \<noteq> ''All''
            then bool_index filtered_df
                   (series_eq (getitem filtered_df test_preparation_course) (prep_filter s))
            else filtered_df)
     in bool_index filtered_df (numeric_mask filtered_df s))"

section \<open>The filter contract, in the words of the specification\<close>

text \<open>
  A categorical predicate holds when the chosen value is the wildcard or the row's
  attribute is exactly the chosen value; a range predicate holds when the value lies
  between the two bounds, both included; the average score has a lower bound only. A
  row survives when every predicate holds.
\<close>

definition categorical_ok :: "string \<Rightarrow> string \<Rightarrow> bool" where
  "categorical_ok chosen v \<longleftrightarrow> chosen = ''All'' \<or> v = chosen"

definition in_range :: "('a::linorder) \<Rightarrow> 'a \<Rightarrow> 'a \<Rightarrow> bool" where
  "in_range lo hi v \<longleftrightarrow> lo \<le> v \<and> v \<le> hi"

definition row_survives :: "filter_spec \<Rightarrow> row \<Rightarrow> bool" where
  "row_survives s r \<longleftrightarrow>
     categorical_ok (gender_filter s) (gender r) \<and>
     categorical_ok (race_filter s) (race_ethnicity r) \<and>
     categorical_ok (education_filter s) (parental_level_of_education r) \<and>
     categorical_ok (lunch_filter s) (lunch r) \<and>
     categorical_ok (prep_filter s) (test_preparation_course r) \<and>
     in_range (math_min s) (math_max s) (math_score r) \<and>
     in_range (reading_min s) (reading_max s) (reading_score r) \<and>
     in_range (writing_min s) (writing_max s) (writing_score r) \<and>
     in_range (attendance_min s) (attendance_max s) (Attendance r) \<and>
     in_range (study_hours_min s) (study_hours_max s) (StudyHours r) \<and>
     avg_score_min s \<le> avg_Score r"

section \<open>The filter block on a store of objects\<close>

text \<open>
  The same sixteen lines, with the objects made explicit. A pandas frame is an object
  behind a reference; \<^verbatim>\<open>df\<close> and \<^verbatim>\<open>filtered_df\<close> are variables holding references.
  \<^verbatim>\<open>df.copy()\<close> and \<^verbatim>\<open>frame[mask]\<close> both build a new object and leave the object they
  read as it was; the assignment then rebinds \<^verbatim>\<open>filtered_df\<close>. References below
  \<open>next_ref\<close> are the objects that exist. Line 132 binds \<^verbatim>\<open>filtered_df\<close> before
  anything reads it, so its value before the block does not matter.
\<close>

type_synonym ref = nat

record session =
  heap :: "ref \<Rightarrow> dataframe"
  next_ref :: ref
  var_df :: ref
  var_filtered_df :: ref

definition new_object :: "dataframe \<Rightarrow> session \<Rightarrow> ref \<times> session" where
  "new_object v st =
     (next_ref st, st\<lparr>heap := (heap st)(next_ref st := v), next_ref := Suc (next_ref st)\<rparr>)"

definition assign_copy :: "session \<Rightarrow> session" where
  "assign_copy st =
     (case new_object (heap st (var_df st)) st of
        (r, st') \<Rightarrow> st'\<lparr>var_filtered_df := r\<rparr>)"

definition assign_selection :: "(dataframe \<Rightarrow> bool list) \<Rightarrow> session \<Rightarrow> session" where
  "assign_selection mk st =
     (let filtered_df = heap st (var_filtered_df st) in
      case new_object (bool_index filtered_df (mk filtered_df)) st of
        (r, st') \<Rightarrow> st'\<lparr>var_filtered_df := r\<rparr>)"

definition filter_block :: "filter_spec \<Rightarrow> session \<Rightarrow> session" where
  "filter_block s st0 =
    (let st = assign_copy st0;
         st = (if gender_filter s \<noteq> ''All''
               then assign_selection
                      (\<lambda>filtered_df. series_eq (getitem filtered_df gender) (gender_filter s)) st
               else st);
         st = (if race_filter s \<noteq> ''All''
               then assign_selection
                      (\<lambda>filtered_df. series_eq (getitem filtered_df race_ethnicity)
                         (race_filter s)) st
               else st);
         st = (if education_filter s \<noteq> ''All''
               then assign_selection
                      (\<lambda>filtered_df. series_eq (getitem filtered_df parental_level_of_education)
                         (education_filter s)) st
               else st);
         st = (if lunch_filter s \<noteq> ''All''
               then assign_selection
                      (\<lambda>filtered_df. series_eq (getitem filtered_df lunch) (lunch_filter s)) st
               else st);
         st = (if prep_filter s \<noteq> ''All''
               then assign_selection
                      (\<lambda>filtered_df. series_eq (getitem filtered_df test_preparation_course)
                         (prep_filter s)) st
               else st)
     in assign_selection (\<lambda>filtered_df. numeric_mask filtered_df s) st)"

text \<open>
  What a later state keeps of an earlier one: the binding of \<^verbatim>\<open>df\<close> and every object
  that existed. The view in use is an object made since.
\<close>

definition preserves :: "session \<Rightarrow> session \<Rightarrow> bool" where
  "preserves st st' \<longleftrightarrow>
     var_df st' = var_df st \<and> next_ref st \<le> next_ref st' \<and>
     next_ref st \<le> var_filtered_df st' \<and> var_filtered_df st' < next_ref st' \<and>
     (\<forall>r. r < next_ref st \<longrightarrow> heap st' r = heap st r)"

section \<open>The output section (lines 164 and 417 to 418)\<close>

text \<open>
  The results (record count, means, charts, table, download, correlations) are computed
  and shown only when the view has a row; otherwise the page shows the message that no
  student matches. Of the results, the record count of line 173 and the table handed to
  line 376 are kept; the float statistics are not modelled.
\<close>

datatype result_page = Results nat dataframe | NoMatchMessage

definition output_section :: "dataframe \<Rightarrow> result_page" where
  "output_section filtered_df =
     (if length filtered_df > 0 then Results (length filtered_df) filtered_df
      else NoMatchMessage)"

section \<open>Loading (lines 34 to 52 and 431 to 433)\<close>

text \<open>
  What \<^verbatim>\<open>pandas.read_csv\<close> does with a file's bytes is not part of the script: a source
  either makes it raise or parses to a frame. A parsed frame is a list of named columns,
  whatever their names are; \<^verbatim>\<open>df['name']\<close> raises \<^verbatim>\<open>KeyError\<close> for a name that is not
  one of them.
\<close>

datatype py_error = FileNotFoundError | ParserError | KeyError string

datatype cell = StrCell string | IntCell int | FloatCell real | NaNCell

type_synonym raw_frame = "(string \<times> cell list) list"

datatype csv_source = Unparsable | Parsable raw_frame

definition read_csv :: "csv_source \<Rightarrow> py_error + raw_frame" where
  "read_csv src = (case src of Unparsable \<Rightarrow> Inl ParserError | Parsable t \<Rightarrow> Inr t)"

text \<open>
  The two places a table can come from: the file \<^verbatim>\<open>StudentsPerformance_Updated.csv\<close>
  in the working directory (\<open>None\<close>: no such file) and the upload widget of line 45
  (\<open>None\<close>: nothing uploaded).
\<close>

record environment =
  default_path :: "csv_source option"
  uploaded_file :: "csv_source option"

definition read_csv_path :: "environment \<Rightarrow> py_error + raw_frame" where
  "read_csv_path env =
     (case default_path env of None \<Rightarrow> Inl FileNotFoundError | Some src \<Rightarrow> read_csv src)"

text \<open>Lines 35 to 42: the bare \<^verbatim>\<open>except\<close> turns every exception into \<^verbatim>\<open>None\<close>.\<close>

definition load_student_data :: "environment \<Rightarrow> raw_frame option" where
  "load_student_data env =
     (case read_csv_path env of Inr df \<Rightarrow> Some df | Inl e \<Rightarrow> None)"

text \<open>Lines 47 to 50: the uploaded file is read outside any \<^verbatim>\<open>try\<close>.\<close>

definition load_df :: "environment \<Rightarrow> py_error + raw_frame option" where
  "load_df env =
     (case uploaded_file env of
        Some src \<Rightarrow> (case read_csv src of Inl e \<Rightarrow> Inl e | Inr df \<Rightarrow> Inr (Some df))
      | None \<Rightarrow> Inr (load_student_data env))"

definition column :: "raw_frame \<Rightarrow> string \<Rightarrow> py_error + cell list" where
  "column df name = (case map_of df name of None \<Rightarrow> Inl (KeyError name) | Some c \<Rightarrow> Inr c)"

text \<open>
  Lines 65 to 90 read five columns, in this order, to fill the select boxes. Only the
  look-ups are modelled; the first one that fails ends the run.
\<close>

definition selectbox_columns :: "raw_frame \<Rightarrow> py_error + unit" where
  "selectbox_columns df =
     (case column df ''gender'' of Inl e \<Rightarrow> Inl e | Inr _ \<Rightarrow>
      case column df ''race/ethnicity'' of Inl e \<Rightarrow> Inl e | Inr _ \<Rightarrow>
      case column df ''parental level of education'' of Inl e \<Rightarrow> Inl e | Inr _ \<Rightarrow>
      case column df ''lunch'' of Inl e \<Rightarrow> Inl e | Inr _ \<Rightarrow>
      case column df ''test preparation course'' of Inl e \<Rightarrow> Inl e | Inr _ \<Rightarrow> Inr ())"

text \<open>
  How a run of the script ends, as far as loading decides it: an uncaught exception, the
  request to upload a file (lines 431 to 433), or the dashboard body running on a frame
  whose select boxes could be filled (what the body then computes is the subject of the
  sections above).
\<close>

datatype page = Crashed py_error | UploadPrompt | DashboardBody raw_frame

definition script :: "environment \<Rightarrow> page" where
  "script env =
     (case load_df env of
        Inl e \<Rightarrow> Crashed e
      | Inr None \<Rightarrow> UploadPrompt
      | Inr (Some df) \<Rightarrow>
          (case selectbox_columns df of Inl e \<Rightarrow> Crashed e | Inr _ \<Rightarrow> DashboardBody df))"

section \<open>Notions of the specification\<close>

text \<open>
  Modelled from the spec: the column names an input file must have (section 6), and when
  loading counts as failed: the file in use is absent, malformed or lacks a required
  column. The file in use is the uploaded one when there is one, else the default one.
\<close>

definition required_columns :: "string list" where
  "required_columns =
     [''gender'', ''race/ethnicity'', ''parental level of education'', ''lunch'',
      ''test preparation course'', ''math score'', ''reading score'', ''writing score'',
      ''Attendance'', ''StudyHours'', ''avg_Score'']"

definition source_fails :: "csv_source option \<Rightarrow> bool" where
  "source_fails f =
     (case f of
        None \<Rightarrow> True
      | Some Unparsable \<Rightarrow> True
      | Some (Parsable t) \<Rightarrow> list_ex (\<lambda>c. c \<notin> set (map fst t)) required_columns)"

definition loading_fails :: "environment \<Rightarrow> bool" where
  "loading_fails env =
     (case uploaded_file env of
        Some src \<Rightarrow> source_fails (Some src)
      | None \<Rightarrow> source_fails (default_path env))"

text \<open>
  Modelled from the spec: the domain of each numeric attribute (section 3; the average of
  three scores between 0 and 100 lies between 0 and 100), and the filter that selects
  everything: every categorical value the wildcard, every range the whole domain, the
  minimum average 0. These are also the initial values of the widgets.
\<close>

definition record_in_domain :: "row \<Rightarrow> bool" where
  "record_in_domain r \<longleftrightarrow>
     in_range 0 100 (math_score r) \<and>
     in_range 0 100 (reading_score r) \<and>
     in_range 0 100 (writing_score r) \<and>
     in_range 0 10 (Attendance r) \<and>
     in_range 0 12 (StudyHours r) \<and>
     in_range 0 100 (avg_Score r)"

definition dataset_invariant :: "dataframe \<Rightarrow> bool" where
  "dataset_invariant D \<longleftrightarrow> list_all record_in_domain D"

definition wildcard_spec :: filter_spec where
  "wildcard_spec =
     \<lparr>gender_filter = ''All'', race_filter = ''All'', education_filter = ''All'',
      lunch_filter = ''All'', prep_filter = ''All'',
      attendance_min = 0, attendance_max = 10,
      study_hours_min = 0, study_hours_max = 12,
      math_min = 0, math_max = 100,
      reading_min = 0, reading_max = 100,
      writing_min = 0, writing_max = 100,
      avg_score_min = 0\<rparr>"

text \<open>
  Modelled from the spec: a filter \<open>t\<close> is at least as strict as a filter \<open>s\<close> when every
  lower bound of \<open>t\<close> is at least that of \<open>s\<close>, every upper bound at most that of \<open>s\<close>,
  and every categorical value is the one of \<open>s\<close> unless \<open>s\<close> has the wildcard there.
\<close>

definition categorical_tightened :: "string \<Rightarrow> string \<Rightarrow> bool" where
  "categorical_tightened old new \<longleftrightarrow> old = ''All'' \<or> new = old"

definition tightened :: "filter_spec \<Rightarrow> filter_spec \<Rightarrow> bool" where
  "tightened s t \<longleftrightarrow>
     categorical_tightened (gender_filter s) (gender_filter t) \<and>
     categorical_tightened (race_filter s) (race_filter t) \<and>
     categorical_tightened (education_filter s) (education_filter t) \<and>
     categorical_tightened (lunch_filter s) (lunch_filter t) \<and>
     categorical_tightened (prep_filter s) (prep_filter t) \<and>
     math_min s \<le> math_min t \<and> math_max t \<le> math_max s \<and>
     reading_min s \<le> reading_min t \<and> reading_max t \<le> reading_max s \<and>
     writing_min s \<le> writing_min t \<and> writing_max t \<le> writing_max s \<and>
     attendance_min s \<le> attendance_min t \<and> attendance_max t \<le> attendance_max s \<and>
     study_hours_min s \<le> study_hours_min t \<and> study_hours_max t \<le> study_hours_max s \<and>
     avg_score_min s \<le> avg_score_min t"

text \<open>
  Modelled from the spec: some numeric range of the filter is inverted, its minimum above
  its maximum.
\<close>

definition inverted_bounds :: "filter_spec \<Rightarrow> bool" where
  "inverted_bounds s \<longleftrightarrow>
     math_max s < math_min s \<or> reading_max s < reading_min s \<or>
     writing_max s < writing_min s \<or> attendance_max s < attendance_min s \<or>
     study_hours_max s < study_hours_min s"

section \<open>Sample data\<close>

definition alice :: row where
  "alice = \<lparr>gender = ''female'', race_ethnicity = ''group B'',
     parental_level_of_education = ''bachelor's degree'', lunch = ''standard'',
     test_preparation_course = ''completed'', math_score = 72, reading_score = 90,
     writing_score = 88, Attendance = 9, StudyHours = 7.5, avg_Score = 83.33\<rparr>"

definition bob :: row where
  "bob = \<lparr>gender = ''male'', race_ethnicity = ''group C'',
     parental_level_of_education = ''some college'', lunch = ''free/reduced'',
     test_preparation_course = ''none'', math_score = 47, reading_score = 57,
     writing_score = 44, Attendance = 4, StudyHours = 2, avg_Score = 49.33\<rparr>"

definition carol :: row where
  "carol = \<lparr>gender = ''female'', race_ethnicity = ''group A'',
     parental_level_of_education = ''high school'', lunch = ''standard'',
     test_preparation_course = ''none'', math_score = 95, reading_score = 93,
     writing_score = 100, Attendance = 10, StudyHours = 12, avg_Score = 96\<rparr>"

definition sample_df :: dataframe where
  "sample_df = [alice, bob, carol]"

definition female_spec :: filter_spec where
  "female_spec = wildcard_spec\<lparr>gender_filter := ''female''\<rparr>"

definition strict_spec :: filter_spec where
  "strict_spec = wildcard_spec\<lparr>gender_filter := ''female'', math_min := 80\<rparr>"

definition inverted_spec :: filter_spec where
  "inverted_spec = wildcard_spec\<lparr>math_min := 90, math_max := 10\<rparr>"

definition sample_session :: session where
  "sample_session =
     \<lparr>heap = (\<lambda>r. if r = 0 then sample_df else []), next_ref = 1, var_df = 0,
      var_filtered_df = 0\<rparr>"

definition no_file_env :: environment where
  "no_file_env = \<lparr>default_path = None, uploaded_file = None\<rparr>"

definition wrong_columns_env :: environment where
  "wrong_columns_env =
     \<lparr>default_path = Some (Parsable [(''name'', [StrCell ''Ann'']), (''math score'', [IntCell 72])]),
      uploaded_file = None\<rparr>"

definition bad_upload_env :: environment where
  "bad_upload_env = \<lparr>default_path = None, uploaded_file = Some Unparsable\<rparr>"

section \<open>Masks and selections\<close>

lemma bool_index_map: "bool_index df (map p df) = filter p df"
  by (induction df) (simp_all add: bool_index_def)

lemma mask_and_map: "mask_and (map p df) (map q df) = map (\<lambda>r. p r \<and> q r) df"
  by (induction df) (simp_all add: mask_and_def)

lemma select_eq: "bool_index df (series_eq (getitem df c) v) = filter (\<lambda>r. c r = v) df"
  by (simp add: series_eq_def getitem_def bool_index_map [symmetric] comp_def)

lemma categorical_step:
  "(if chosen \<noteq> ''All'' then bool_index df (series_eq (getitem df c) chosen) else df)
     = filter (\<lambda>r. categorical_ok chosen (c r)) df"
  by (simp add: select_eq categorical_ok_def)

lemma numeric_mask_map:
  "numeric_mask df s =
     map (\<lambda>r. in_range (math_min s) (math_max s) (math_score r) \<and>
               in_range (reading_min s) (reading_max s) (reading_score r) \<and>
               in_range (writing_min s) (writing_max s) (writing_score r) \<and>
               in_range (attendance_min s) (attendance_max s) (Attendance r) \<and>
               in_range (study_hours_min s) (study_hours_max s) (StudyHours r) \<and>
               avg_score_min s \<le> avg_Score r) df"
  by (simp add: numeric_mask_def series_ge_def series_le_def getitem_def mask_and_map
      in_range_def)

lemma apply_filters_filter: "apply_filters df s = filter (row_survives s) df"
  unfolding apply_filters_def Let_def categorical_step numeric_mask_map bool_index_map
  by (simp add: row_survives_def [abs_def] cong: conj_cong)

lemma apply_filters_sample: "apply_filters sample_df female_spec = [alice, carol]"
  by (simp add: apply_filters_def female_spec_def wildcard_spec_def sample_df_def
      alice_def bob_def carol_def bool_index_def series_eq_def series_ge_def series_le_def
      getitem_def mask_and_def numeric_mask_def)

section \<open>Which rows the view holds\<close>

text \<open>
  Claim C1. A row belongs to the view exactly when it is a row of the dataset and, for
  each categorical attribute, the filter's value is \<^verbatim>\<open>All\<close> or the row's attribute is
  that very string, each of the five numeric attributes lies between its minimum and its
  maximum, both included, and the average score is at least the minimum average. The
  view is the dataset with the other rows left out.
\<close>

theorem apply_filters_membership:
  "apply_filters df s = filter (row_survives s) df \<and>
   (r \<in> set (apply_filters df s) \<longleftrightarrow>
     r \<in> set df \<and>
     (gender_filter s = ''All'' \<or> gender r = gender_filter s) \<and>
     (race_filter s = ''All'' \<or> race_ethnicity r = race_filter s) \<and>
     (education_filter s = ''All'' \<or> parental_level_of_education r = education_filter s) \<and>
     (lunch_filter s = ''All'' \<or> lunch r = lunch_filter s) \<and>
     (prep_filter s = ''All'' \<or> test_preparation_course r = prep_filter s) \<and>
     math_min s \<le> math_score r \<and> math_score r \<le> math_max s \<and>
     reading_min s \<le> reading_score r \<and> reading_score r \<le> reading_max s \<and>
     writing_min s \<le> writing_score r \<and> writing_score r \<le> writing_max s \<and>
     attendance_min s \<le> Attendance r \<and> Attendance r \<le> attendance_max s \<and>
     study_hours_min s \<le> StudyHours r \<and> StudyHours r \<le> study_hours_max s \<and>
     avg_score_min s \<le> avg_Score r)"
  by (simp add: apply_filters_filter row_survives_def categorical_ok_def in_range_def)

theorem apply_filters_membership_witness:
  "alice \<in> set (apply_filters sample_df female_spec) \<and>
   bob \<notin> set (apply_filters sample_df female_spec)"
  using apply_filters_membership [of sample_df female_spec alice, THEN conjunct2]
    apply_filters_membership [of sample_df female_spec bob, THEN conjunct2]
  by (simp add: sample_df_def female_spec_def wildcard_spec_def alice_def bob_def)

section \<open>The filter that selects everything\<close>

lemma row_survives_wildcard: "record_in_domain r \<Longrightarrow> row_survives wildcard_spec r"
  by (simp add: row_survives_def record_in_domain_def wildcard_spec_def categorical_ok_def
      in_range_def)

lemma sample_df_invariant: "dataset_invariant sample_df"
  by (simp add: dataset_invariant_def sample_df_def record_in_domain_def in_range_def
      alice_def bob_def carol_def)

text \<open>
  Claim C5. On a dataset whose numeric columns lie in their domains, the filter with
  every categorical value \<^verbatim>\<open>All\<close>, every range the whole domain and minimum average 0
  returns the dataset itself: the same rows in the same order.
\<close>

theorem apply_filters_wildcard:
  "dataset_invariant D \<Longrightarrow> apply_filters D wildcard_spec = D"
  by (simp add: apply_filters_filter dataset_invariant_def list_all_iff
      row_survives_wildcard)

theorem apply_filters_wildcard_witness:
  "dataset_invariant sample_df \<and> apply_filters sample_df wildcard_spec = sample_df"
  using apply_filters_wildcard [OF sample_df_invariant] sample_df_invariant by simp

section \<open>Inverted bounds\<close>

lemma row_survives_inverted: "inverted_bounds s \<Longrightarrow> \<not> row_survives s r"
  by (auto simp: inverted_bounds_def row_survives_def in_range_def)

lemma inverted_spec_inverted: "inverted_bounds inverted_spec"
  by (simp add: inverted_bounds_def inverted_spec_def wildcard_spec_def)

text \<open>
  Claim C6. When some numeric range of the filter has its minimum above its maximum, the
  view of any dataset is empty, its count is 0, and the output section shows the
  no-match message instead of computing the results. The filter block is a total
  function: no bound makes it raise.
\<close>

theorem inverted_bounds_empty:
  "inverted_bounds s \<Longrightarrow>
     apply_filters df s = [] \<and> length (apply_filters df s) = 0 \<and>
     output_section (apply_filters df s) = NoMatchMessage"
  by (simp add: apply_filters_filter row_survives_inverted output_section_def)

theorem inverted_bounds_empty_witness:
  "inverted_bounds inverted_spec \<and>
   apply_filters sample_df inverted_spec = [] \<and>
   output_section (apply_filters sample_df inverted_spec) = NoMatchMessage"
  using inverted_bounds_empty [OF inverted_spec_inverted, of sample_df]
    inverted_spec_inverted
  by (simp add: output_section_def)

section \<open>Order\<close>

text \<open>
  Claim C7. The view is a subsequence of the dataset: its rows stand in the order they
  have in the dataset, whatever the dataset and the filter.
\<close>

theorem apply_filters_subseq: "subseq (apply_filters df s) df"
  by (simp add: apply_filters_filter)

section \<open>Stricter filters\<close>

lemma categorical_ok_mono:
  "categorical_tightened old new \<Longrightarrow> categorical_ok new v \<Longrightarrow> categorical_ok old v"
  by (auto simp: categorical_tightened_def categorical_ok_def)

lemma in_range_mono:
  "lo \<le> lo' \<Longrightarrow> hi' \<le> hi \<Longrightarrow> in_range lo' hi' v \<Longrightarrow> in_range lo hi v"
  by (auto simp: in_range_def)

lemma row_survives_tightened:
  assumes st: "tightened s t" and t: "row_survives t r"
  shows "row_survives s r"
proof -
  have avg: "avg_score_min s \<le> avg_Score r"
    using st t by (simp add: tightened_def row_survives_def)
  show ?thesis
    using st t avg unfolding tightened_def row_survives_def
    by (blast intro: categorical_ok_mono in_range_mono)
qed

lemma strict_spec_tightened: "tightened wildcard_spec strict_spec"
  by (simp add: tightened_def categorical_tightened_def strict_spec_def wildcard_spec_def)

text \<open>
  Claim C10. Raising lower bounds, lowering upper bounds and replacing \<^verbatim>\<open>All\<close> by a
  category, in any number of the filter's fields, gives a view that is a subsequence of
  the view of the original filter: it is that view with the rows left out that the
  stricter filter rejects.
\<close>

theorem apply_filters_monotone:
  assumes "tightened s t"
  shows "apply_filters df t = filter (row_survives t) (apply_filters df s) \<and>
         subseq (apply_filters df t) (apply_filters df s)"
proof -
  have "filter (row_survives t) df = filter (row_survives t) (filter (row_survives s) df)"
    using row_survives_tightened [OF assms] by (auto intro: filter_cong)
  then have eq: "apply_filters df t = filter (row_survives t) (apply_filters df s)"
    by (simp only: apply_filters_filter)
  have "subseq (filter (row_survives t) (apply_filters df s)) (apply_filters df s)"
    by (rule subseq_filter_left)
  with eq show ?thesis by simp
qed

theorem apply_filters_monotone_witness:
  "tightened wildcard_spec strict_spec \<and>
   subseq (apply_filters sample_df strict_spec) (apply_filters sample_df wildcard_spec)"
  using apply_filters_monotone [OF strict_spec_tightened, of sample_df]
    strict_spec_tightened
  by simp

section \<open>The loaded frame is left alone\<close>

lemma assign_copy_preserves: "preserves st (assign_copy st)"
  by (simp add: preserves_def assign_copy_def new_object_def)

lemma assign_selection_preserves:
  "preserves st0 st \<Longrightarrow> preserves st0 (assign_selection mk st)"
  by (simp add: preserves_def assign_selection_def new_object_def Let_def)

lemma cond_selection_preserves:
  "preserves st0 st \<Longrightarrow> preserves st0 (if b then assign_selection mk st else st)"
  by (simp add: assign_selection_preserves)

lemma filter_block_preserves: "preserves st (filter_block s st)"
  unfolding filter_block_def Let_def
  by (intro assign_selection_preserves cond_selection_preserves assign_copy_preserves)

lemma assign_copy_value:
  "heap (assign_copy st) (var_filtered_df (assign_copy st)) = heap st (var_df st)"
  by (simp add: assign_copy_def new_object_def)

lemma assign_selection_value:
  "heap (assign_selection mk st) (var_filtered_df (assign_selection mk st)) =
     bool_index (heap st (var_filtered_df st)) (mk (heap st (var_filtered_df st)))"
  by (simp add: assign_selection_def new_object_def Let_def)

lemma cond_selection_value:
  "heap (if chosen \<noteq> ''All''
         then assign_selection (\<lambda>fd. series_eq (getitem fd c) chosen) st else st)
     (var_filtered_df (if chosen \<noteq> ''All''
         then assign_selection (\<lambda>fd. series_eq (getitem fd c) chosen) st else st)) =
   filter (\<lambda>r. categorical_ok chosen (c r)) (heap st (var_filtered_df st))"
  by (simp add: assign_selection_value select_eq categorical_ok_def)

lemma filter_block_value:
  "heap (filter_block s st) (var_filtered_df (filter_block s st)) =
     apply_filters (heap st (var_df st)) s"
  unfolding filter_block_def apply_filters_def Let_def categorical_step
  by (simp only: assign_selection_value cond_selection_value assign_copy_value)

text \<open>
  Claim C8. Running the filter block changes no object that existed before it, so the
  loaded dataset has the same rows, with the same values, in the same order; \<^verbatim>\<open>df\<close>
  is still bound to it; and the view the block leaves in \<^verbatim>\<open>filtered_df\<close> is a function
  of the dataset and the filter alone.
\<close>

theorem filter_block_frame:
  "var_df st < next_ref st \<Longrightarrow>
     var_df (filter_block s st) = var_df st \<and>
     heap (filter_block s st) (var_df (filter_block s st)) = heap st (var_df st) \<and>
     (\<forall>r. r < next_ref st \<longrightarrow> heap (filter_block s st) r = heap st r) \<and>
     var_filtered_df (filter_block s st) \<noteq> var_df st \<and>
     heap (filter_block s st) (var_filtered_df (filter_block s st)) =
       apply_filters (heap st (var_df st)) s"
  using filter_block_preserves [of st s] filter_block_value [of s st]
  by (auto simp: preserves_def)

theorem filter_block_frame_witness:
  "var_df sample_session < next_ref sample_session \<and>
   heap (filter_block female_spec sample_session)
     (var_df (filter_block female_spec sample_session)) = sample_df \<and>
   heap (filter_block female_spec sample_session)
     (var_filtered_df (filter_block female_spec sample_session)) = [alice, carol]"
proof -
  have h: "var_df sample_session < next_ref sample_session"
    by (simp add: sample_session_def)
  have d: "heap sample_session (var_df sample_session) = sample_df"
    by (simp add: sample_session_def)
  show ?thesis
    using filter_block_frame [OF h, of female_spec] h d apply_filters_sample by simp
qed

section \<open>Loading\<close>

lemma bad_upload_crashes:
  "loading_fails bad_upload_env \<and> script bad_upload_env = Crashed ParserError"
  by (simp add: loading_fails_def source_fails_def bad_upload_env_def script_def load_df_def
      read_csv_def)

text \<open>
  Claim C2, as stated, fails: a file at the default path that parses but has no
  \<^verbatim>\<open>gender\<close> column counts as a failed load, yet the loader returns its frame and the
  script ends in the \<^verbatim>\<open>KeyError\<close> of line 67, not in the upload prompt.
\<close>

theorem missing_column_counterexample:
  "loading_fails wrong_columns_env \<and>
   load_student_data wrong_columns_env \<noteq> None \<and>
   script wrong_columns_env = Crashed (KeyError ''gender'') \<and>
   script wrong_columns_env \<noteq> UploadPrompt"
  by (simp add: loading_fails_def source_fails_def required_columns_def wrong_columns_env_def
      load_student_data_def read_csv_path_def read_csv_def script_def load_df_def
      selectbox_columns_def column_def)

text \<open>
  Claim C2, amended. When nothing is uploaded and the file at the default path is absent
  or cannot be parsed, the loader returns no data and the script shows the upload prompt
  instead of crashing.
\<close>

theorem default_load_failure_prompts:
  "uploaded_file env = None \<Longrightarrow>
   default_path env = None \<or> default_path env = Some Unparsable \<Longrightarrow>
   load_student_data env = None \<and> script env = UploadPrompt"
  by (auto simp: load_student_data_def read_csv_path_def read_csv_def script_def load_df_def)

theorem default_load_failure_prompts_witness:
  "uploaded_file no_file_env = None \<and> default_path no_file_env = None \<and>
   load_student_data no_file_env = None \<and> script no_file_env = UploadPrompt"
proof -
  have u: "uploaded_file no_file_env = None"
    by (simp add: no_file_env_def)
  have d: "default_path no_file_env = None \<or> default_path no_file_env = Some Unparsable"
    by (simp add: no_file_env_def)
  show ?thesis
    using default_load_failure_prompts [OF u d] by (simp add: no_file_env_def)
qed

end
